theory Spec2Isabelle
  imports Main "HOL-Library.Sublist"
begin

text \<open>
  A shallow embedding of the browser scripts of the repository: the collapsible section
  (\<open>CollapsibleSection\<close> with \<open>init\<close> and \<open>setCollapseState\<close>) and the list filter
  (\<open>updateFilterPartFromControls\<close>, \<open>updateFilterPartFromUrl\<close>,
  \<open>updateControlsFromFilterPart\<close>, \<open>updateUrlFromFilterPart\<close>, \<open>updateListFromFilter\<close>,
  \<open>setupFilter\<close>, \<open>setupFilterPart\<close>) of \<open>collapsiblesection.js\<close>, followed by the places
  where the jQuery versions of the two scripts differ. The document, the window and the
  objects of the scripts are records that the functions take and return; a call that can
  throw returns a completion. The definitions come first, the properties after them.
\<close>

section \<open>Element attributes\<close>

text \<open>
  The attributes of a DOM element are kept as an association list from attribute name to
  value, with at most one entry per name. \<open>getAttribute\<close> answers \<open>None\<close> where the
  DOM answers \<open>null\<close>. Names are looked up exactly as they are written; an HTML document
  puts the name in lower case first, which changes nothing for a name without capital
  letters.
\<close>

type_synonym attrs = "(string \<times> string) list"

definition getAttribute :: "attrs \<Rightarrow> string \<Rightarrow> string option" where
  "getAttribute el name = map_of el name"

definition hasAttribute :: "attrs \<Rightarrow> string \<Rightarrow> bool" where
  "hasAttribute el name = (map_of el name \<noteq> None)"

fun setAttribute :: "attrs \<Rightarrow> string \<Rightarrow> string \<Rightarrow> attrs" where
  "setAttribute [] name v = [(name, v)]"
| "setAttribute ((n, w) # el) name v =
     (if n = name then (name, v) # el else (n, w) # setAttribute el name v)"

definition removeAttribute :: "attrs \<Rightarrow> string \<Rightarrow> attrs" where
  "removeAttribute el name = filter (\<lambda>(n, w). n \<noteq> name) el"

section \<open>The filter object\<close>

text \<open>
  \<open>currentFilter\<close> is a plain JavaScript object used as a mapping from filter key to
  wanted value. It is kept as the list of its own properties in the order in which
  \<open>for (key in filter)\<close> visits them; an assignment \<open>filter[key] = v\<close> overwrites the
  entry in place or appends a new one. Reading a missing key gives \<open>undefined\<close>,
  here \<open>None\<close>. (JavaScript visits keys that are written like array indices before the
  others; the theorems below hold for every order of the entries, so they do not depend
  on where \<open>filterSet\<close> puts a new key.) One key is not covered: \<open>__proto__\<close> names
  the prototype of the object, and assigning a string to it creates no property; the
  statement on the keys of the mapping leaves that key out.
\<close>

type_synonym filter_obj = "(string \<times> string) list"

fun filterSet :: "filter_obj \<Rightarrow> string \<Rightarrow> string \<Rightarrow> filter_obj" where
  "filterSet [] key v = [(key, v)]"
| "filterSet ((k, w) # flt) key v =
     (if k = key then (key, v) # flt else (k, w) # filterSet flt key v)"

definition filterGet :: "filter_obj \<Rightarrow> string \<Rightarrow> string option" where
  "filterGet flt key = map_of flt key"


section \<open>Applying the filter to the list: \<open>updateListFromFilter\<close>\<close>

text \<open>
  \<open>joinType\<close> is computed once in \<open>setupFilter\<close> and is either \<open>'or'\<close> or \<open>'and'\<close>.
\<close>

datatype join_type = JoinAnd | JoinOr

definition joinTypeOf :: "string option \<Rightarrow> join_type" where
  "joinTypeOf dataFilterJoin = (if dataFilterJoin = Some ''or'' then JoinOr else JoinAnd)"

text \<open>
  The \<open>for (key in filter)\<close> loop of one item. The result is the final value of
  \<open>shouldShow\<close> together with the keys whose wanted value was looked at, in order; the
  loop leaves through \<open>break\<close> in the branches that answer without a recursive call.
\<close>

fun evaluateKeys :: "join_type \<Rightarrow> filter_obj \<Rightarrow> attrs \<Rightarrow> bool \<times> string list" where
  "evaluateKeys joinType [] item = (joinType \<noteq> JoinOr, [])"
| "evaluateKeys joinType ((key, wantedValue) # rest) item =
     (let itemValue = getAttribute item (''data-filter-'' @ key) in
      if joinType = JoinOr then
        (if itemValue = Some wantedValue \<or> wantedValue = ''*'' then (True, [key])
         else (case evaluateKeys joinType rest item of (s, ks) \<Rightarrow> (s, key # ks)))
      else
        (if itemValue \<noteq> Some wantedValue \<and> wantedValue \<noteq> ''*'' then (False, [key])
         else (case evaluateKeys joinType rest item of (s, ks) \<Rightarrow> (s, key # ks))))"

definition shouldShow :: "join_type \<Rightarrow> filter_obj \<Rightarrow> attrs \<Rightarrow> bool" where
  "shouldShow joinType flt item = fst (evaluateKeys joinType flt item)"

definition keysEvaluated :: "join_type \<Rightarrow> filter_obj \<Rightarrow> attrs \<Rightarrow> string list" where
  "keysEvaluated joinType flt item = snd (evaluateKeys joinType flt item)"

definition updateItem :: "join_type \<Rightarrow> filter_obj \<Rightarrow> attrs \<Rightarrow> attrs" where
  "updateItem joinType flt item =
     (if shouldShow joinType flt item then removeAttribute item ''hidden''
      else setAttribute item ''hidden'' ''hidden'')"

text \<open>
  The child nodes of the list; only those whose \<open>nodeType\<close> is \<open>ELEMENT_NODE\<close> are
  items, every other node (text, comment) is left alone.
\<close>

datatype child_node = ElementNode attrs | OtherNode string

fun updateChild :: "join_type \<Rightarrow> filter_obj \<Rightarrow> child_node \<Rightarrow> child_node" where
  "updateChild joinType flt (ElementNode item) = ElementNode (updateItem joinType flt item)"
| "updateChild joinType flt (OtherNode t) = OtherNode t"

definition updateListFromFilter :: "child_node list \<Rightarrow> filter_obj \<Rightarrow> join_type \<Rightarrow> child_node list" where
  "updateListFromFilter children flt joinType = map (updateChild joinType flt) children"

text \<open>An item is shown when it does not carry the \<open>hidden\<close> attribute.\<close>

definition isShown :: "attrs \<Rightarrow> bool" where
  "isShown item = (\<not> hasAttribute item ''hidden'')"

text \<open>
  What the item declares for one entry of the filter: the entry is a mismatch in the sense
  of the \<open>and\<close> branch, or a match in the sense of the \<open>or\<close> branch.
\<close>

definition mismatches :: "attrs \<Rightarrow> string \<times> string \<Rightarrow> bool" where
  "mismatches item e = (snd e \<noteq> ''*'' \<and> getAttribute item (''data-filter-'' @ fst e) \<noteq> Some (snd e))"

definition matchesOr :: "attrs \<Rightarrow> string \<times> string \<Rightarrow> bool" where
  "matchesOr item e = (snd e = ''*'' \<or> getAttribute item (''data-filter-'' @ fst e) = Some (snd e))"

text \<open>
  The \<open>or\<close> join as the specification words it, for comparison with the loop above: an
  item is shown when some key whose wanted value is not the wildcard equals the item's
  attribute, or when every wanted value of the filter is the wildcard.
\<close>

definition orJoinAsClaimed :: "filter_obj \<Rightarrow> attrs \<Rightarrow> bool" where
  "orJoinAsClaimed flt item =
     ((\<exists>(key, wanted) \<in> set flt. wanted \<noteq> ''*'' \<and> getAttribute item (''data-filter-'' @ key) = Some wanted)
      \<or> (\<forall>(key, wanted) \<in> set flt. wanted = ''*''))"

section \<open>Strings and the regular expressions of the filter script\<close>


text \<open>The line terminators that \<open>.\<close> does not match (line feed, carriage return).\<close>

definition lineTerminator :: "char \<Rightarrow> bool" where
  "lineTerminator c = (c = CHR 0x0A \<or> c = CHR 0x0D)"


text \<open>\<open>(.+)\<close> at the start of a string: the longest run without a line terminator, not empty.\<close>

definition dotPlus :: "string \<Rightarrow> string option" where
  "dotPlus s = (let r = takeWhile (\<lambda>c. \<not> lineTerminator c) s in if r = [] then None else Some r)"

text \<open>\<open>location.hash.match(/^#!(.+)/)\<close>: the first group, \<open>None\<close> when there is no match.\<close>

definition matchFilterInUrl :: "string \<Rightarrow> string option" where
  "matchFilterInUrl hash = (if prefix ''#!'' hash then dotPlus (drop 2 hash) else None)"

text \<open>\<open>location.hash.match(/#!(.+)/)\<close>: the same expression tried at every position in turn.\<close>

fun matchExistingFilter :: "string \<Rightarrow> string option" where
  "matchExistingFilter [] = None"
| "matchExistingFilter (c # cs) =
     (case matchFilterInUrl (c # cs) of Some r \<Rightarrow> Some r | None \<Rightarrow> matchExistingFilter cs)"

text \<open>
  The key followed by \<open>=\<close>, as it stands in both expressions, tried at the start of a
  string.
\<close>

fun keyAt :: "string \<Rightarrow> string \<Rightarrow> bool" where
  "keyAt [] s = True"
| "keyAt (k # ks) [] = False"
| "keyAt (k # ks) (c # cs) =
     ((if k = CHR ''.'' then \<not> lineTerminator c else c = k) \<and> keyAt ks cs)"

text \<open>
  \<open>new RegExp('(' + key + '=[^;]*)')\<close> on a string: the leftmost place where \<open>key=\<close>
  matches, with the longest run of characters other than \<open>;\<close> after it. The answer is
  the text before the match, the match and the text after it.
\<close>

fun searchKeyPart :: "string \<Rightarrow> string \<Rightarrow> (string \<times> string \<times> string) option" where
  "searchKeyPart key [] = None"
| "searchKeyPart key (c # cs) =
     (if keyAt (key @ ''='') (c # cs) then
        (let rest = drop (length key + 1) (c # cs);
             v = takeWhile (\<lambda>c. c \<noteq> CHR '';'') rest
         in Some ([], take (length key + 1) (c # cs) @ v, drop (length v) rest))
      else map_option (\<lambda>(front, matched, back). (c # front, matched, back))
             (searchKeyPart key cs))"

text \<open>
  The replacement text of \<open>String.prototype.replace\<close> when the pattern has one group that
  spans the whole match: \<open>$$\<close> is a dollar sign, \<open>$&\<close>, \<open>$1\<close> and \<open>$01\<close> are the match,
  \<open>$`\<close> is the text before it and \<open>$'\<close> the text after it; any other \<open>$\<close> stands for
  itself.
\<close>

fun getSubstitution :: "string \<Rightarrow> string \<Rightarrow> string \<Rightarrow> string \<Rightarrow> string" where
  "getSubstitution matched front back [] = []"
| "getSubstitution matched front back [c] = [c]"
| "getSubstitution matched front back (c # d # t) =
     (if c \<noteq> CHR ''$'' then c # getSubstitution matched front back (d # t)
      else if d = CHR ''$'' then CHR ''$'' # getSubstitution matched front back t
      else if d = CHR ''&'' then matched @ getSubstitution matched front back t
      else if d = CHR 0x60 then front @ getSubstitution matched front back t
      else if d = CHR 0x27 then back @ getSubstitution matched front back t
      else if d = CHR ''1'' then matched @ getSubstitution matched front back t
      else if d = CHR ''0'' \<and> t \<noteq> [] \<and> hd t = CHR ''1''
        then matched @ getSubstitution matched front back (tl t)
      else CHR ''$'' # getSubstitution matched front back (d # t))"

text \<open>
  \<open>s.match('(?:^|;)' + key + '=([^;]+)')\<close>: the first group of the leftmost match.
  \<open>segmentValue\<close> is \<open>key=([^;]+)\<close> at the start of a string; the whole expression tries
  it at the start of the string and then after every \<open>;\<close>, from left to right.
\<close>

definition segmentValue :: "string \<Rightarrow> string \<Rightarrow> string option" where
  "segmentValue key s =
     (if keyAt (key @ ''='') s then
        (let v = takeWhile (\<lambda>c. c \<noteq> CHR '';'') (drop (length key + 1) s)
         in if v = [] then None else Some v)
      else None)"

fun scanSegments :: "string \<Rightarrow> string \<Rightarrow> string option" where
  "scanSegments key [] = None"
| "scanSegments key (c # cs) =
     (if c = CHR '';'' then
        (case segmentValue key cs of Some v \<Rightarrow> Some v | None \<Rightarrow> scanSegments key cs)
      else scanSegments key cs)"

definition matchFilterValue :: "string \<Rightarrow> string \<Rightarrow> string option" where
  "matchFilterValue key s =
     (case segmentValue key s of Some v \<Rightarrow> Some v | None \<Rightarrow> scanSegments key s)"

section \<open>The filter and the URL fragment\<close>

text \<open>
  What the script sees of the browser window: \<open>location.hash\<close>, whether
  \<open>history.pushState\<close> exists, and the entries pushed so far (the state and the URL as
  they were passed).
\<close>

record window =
  location_hash :: string
  hasPushState :: bool
  pushed :: "(string \<times> string) list"

text \<open>
  The URL passed to \<open>history.pushState\<close> goes through the URL parser of the browser
  before \<open>location.hash\<close> shows it. The parser drops the control characters and spaces
  at both ends of the text, removes every tab and newline, takes what follows the first
  \<open>#\<close> as the fragment, and writes each character of the fragment that is a control
  character, a space, one of \<open>"\<close>, \<open><\<close>, \<open>>\<close>, \<open>`\<close>, or above \<open>~\<close> as the
  percent escapes of its UTF-8 bytes. A character above \<open>~\<close> is read as the code point of
  the same number, which takes two bytes in UTF-8 from 128 on.
\<close>

definition c0ControlOrSpace :: "char \<Rightarrow> bool" where
  "c0ControlOrSpace c = ((of_char c :: nat) \<le> 0x20)"

definition tabOrNewline :: "char \<Rightarrow> bool" where
  "tabOrNewline c = (c = CHR 0x09 \<or> c = CHR 0x0A \<or> c = CHR 0x0D)"

definition inFragmentPercentEncodeSet :: "char \<Rightarrow> bool" where
  "inFragmentPercentEncodeSet c =
     ((of_char c :: nat) \<le> 0x20 \<or> (of_char c :: nat) \<ge> 0x7F \<or>
      c \<in> set [CHR 0x22, CHR ''<'', CHR ''>'', CHR 0x60])"

definition hexDigit :: "nat \<Rightarrow> char" where
  "hexDigit n = ''0123456789ABCDEF'' ! n"

definition percentEncodeByte :: "nat \<Rightarrow> string" where
  "percentEncodeByte n = [CHR ''%'', hexDigit (n div 16), hexDigit (n mod 16)]"

definition utf8PercentEncode :: "char \<Rightarrow> string" where
  "utf8PercentEncode c =
     (let n = (of_char c :: nat)
      in if n \<ge> 0x80 then percentEncodeByte (0xC0 + n div 64) @ percentEncodeByte (0x80 + n mod 64)
         else if inFragmentPercentEncodeSet c then percentEncodeByte n
         else [c])"

text \<open>The fragment of a URL after parsing; \<open>None\<close> when the URL has no \<open>#\<close>.\<close>

definition parseFragment :: "string \<Rightarrow> string option" where
  "parseFragment url =
     (let trimmed = rev (dropWhile c0ControlOrSpace (rev (dropWhile c0ControlOrSpace url)));
          input = filter (\<lambda>c. \<not> tabOrNewline c) trimmed
      in case dropWhile (\<lambda>c. c \<noteq> CHR ''#'') input of
           [] \<Rightarrow> None
         | c # fragment \<Rightarrow> Some (concat (map utf8PercentEncode fragment)))"

text \<open>
  \<open>location.hash\<close> is \<open>#\<close> followed by the fragment, and empty when the URL has no
  fragment or an empty one.
\<close>

definition pushState :: "window \<Rightarrow> string \<Rightarrow> string \<Rightarrow> window" where
  "pushState w state url =
     w\<lparr>location_hash :=
         (case parseFragment url of
            None \<Rightarrow> []
          | Some fragment \<Rightarrow> if fragment = [] then [] else CHR ''#'' # fragment),
       pushed := pushed w @ [(state, url)]\<rparr>"


text \<open>String concatenation turns \<open>undefined\<close> into the text \<open>undefined\<close>.\<close>

definition jsString :: "string option \<Rightarrow> string" where
  "jsString v = (case v of None \<Rightarrow> ''undefined'' | Some s \<Rightarrow> s)"

text \<open>
  The two functions that write a key into the fragment and read it back, for a key whose
  patterns the browser compiles. Where the pattern of a key is not a valid one, compiling
  it throws a \<open>SyntaxError\<close>; that outcome belongs to the calls of the two functions in
  a page (\<open>callUpdateUrlFromFilterPart\<close> and \<open>callUpdateFilterPartFromUrl\<close> below).
\<close>

definition updateUrlFromFilterPart :: "filter_obj \<Rightarrow> string \<Rightarrow> window \<Rightarrow> window" where
  "updateUrlFromFilterPart flt key w =
     (let existingFilter = matchExistingFilter (location_hash w);
          newFilterPart = key @ ''='' @ jsString (filterGet flt key)
      in if hasPushState w then
           (let newFragment = ''#!'' @ (case existingFilter of Some r \<Rightarrow> r | None \<Rightarrow> [])
            in pushState w newFilterPart
                 (case searchKeyPart key newFragment of
                    Some (front, matched, back) \<Rightarrow>
                      front @ getSubstitution matched front back newFilterPart @ back
                  | None \<Rightarrow>
                      newFragment @ (if existingFilter \<noteq> None then '';'' else []) @ newFilterPart))
         else w)"

definition updateFilterPartFromUrl :: "filter_obj \<Rightarrow> string \<Rightarrow> string \<Rightarrow> window \<Rightarrow> filter_obj" where
  "updateFilterPartFromUrl flt key defaultValue w =
     filterSet flt key
       (case matchFilterInUrl (location_hash w) of
          None \<Rightarrow> defaultValue
        | Some r \<Rightarrow> (case matchFilterValue key r of None \<Rightarrow> defaultValue | Some v \<Rightarrow> v))"



section \<open>Form controls: \<open>updateFilterPartFromControls\<close> and \<open>updateControlsFromFilterPart\<close>\<close>

text \<open>
  A control is an element found by \<open>querySelectorAll('[data-filter]')\<close>, so it carries a
  \<open>data-filter\<close> value; \<open>data-filter-off\<close> and \<open>aria-controls\<close> may be absent. The
  properties \<open>checked\<close> and \<open>selected\<close> are read as booleans (a missing property is
  falsy).
\<close>

record control =
  tagName :: string
  checked :: bool
  selected :: bool
  dataFilter :: string
  dataFilterOff :: "string option"
  ariaControls :: "string option"

text \<open>The body of the \<open>forEach\<close> callback, with the filter threaded through.\<close>

definition controlStep :: "string \<Rightarrow> filter_obj \<Rightarrow> control \<Rightarrow> filter_obj" where
  "controlStep key flt c =
     (if tagName c = ''INPUT'' \<and> checked c \<or> tagName c = ''OPTION'' \<and> selected c
      then filterSet flt key (dataFilter c)
      else if tagName c = ''INPUT'' \<and> \<not> checked c \<and> dataFilterOff c \<noteq> None
      then (case dataFilterOff c of Some off \<Rightarrow> filterSet flt key off | None \<Rightarrow> flt)
      else flt)"

definition updateFilterPartFromControls :: "filter_obj \<Rightarrow> string \<Rightarrow> control list \<Rightarrow> filter_obj" where
  "updateFilterPartFromControls flt key controls =
     foldl (controlStep key) (filterSet flt key []) controls"

definition updateControl :: "filter_obj \<Rightarrow> string \<Rightarrow> control \<Rightarrow> control" where
  "updateControl flt key c =
     (let shouldSelect = (Some (dataFilter c) = filterGet flt key)
      in if tagName c = ''OPTION'' then c\<lparr>selected := shouldSelect\<rparr>
         else c\<lparr>checked := shouldSelect\<rparr>)"

definition updateControlsFromFilterPart :: "control list \<Rightarrow> filter_obj \<Rightarrow> string \<Rightarrow> control list" where
  "updateControlsFromFilterPart controls flt key = map (updateControl flt key) controls"




section \<open>The collapsible section\<close>

text \<open>
  A call either returns or throws; in both cases the objects it has changed so far stay
  changed, so a completion carries the state it leaves behind.
\<close>

datatype js_error = TypeError | SyntaxError

datatype 'a completion = Normal 'a | Throw js_error 'a

text \<open>
  The child nodes of the heading are content nodes, of which only an identifying text is
  kept, or the trigger button that \<open>init\<close> appends. The button is kept once, in the
  \<open>trigger\<close> field of the object that refers to it.
\<close>

datatype dom_node = ContentNode string | TriggerNode

record button =
  buttonAttrs :: attrs
  buttonChildren :: "dom_node list"
  onclick :: bool

text \<open>
  The section element as the constructor finds it: its \<open>className\<close>, the child nodes of
  the first descendant with class \<open>heading\<close> and the attributes of the first descendant
  with class \<open>contents\<close>, each \<open>None\<close> where \<open>querySelector\<close> answers \<open>null\<close>. The
  \<open>CollapsibleSection\<close> object adds the fields \<open>collapsed\<close> and \<open>trigger\<close>.
\<close>

record section_element =
  className :: string
  heading :: "dom_node list option"
  contents :: "attrs option"

record collapsible = section_element +
  collapsed :: bool
  trigger :: "button option"

definition CollapsibleSection :: "section_element \<Rightarrow> collapsible" where
  "CollapsibleSection element =
     \<lparr>className = className element, heading = heading element, contents = contents element,
      collapsed = False, trigger = None\<rparr>"

text \<open>\<open>s.replace(pattern, '')\<close> with a string pattern: the first occurrence is removed.\<close>

fun removeFirst :: "string \<Rightarrow> string \<Rightarrow> string" where
  "removeFirst pat [] = []"
| "removeFirst pat (c # cs) =
     (if prefix pat (c # cs) then drop (length pat) (c # cs) else c # removeFirst pat cs)"

definition boolString :: "bool \<Rightarrow> string" where
  "boolString b = (if b then ''true'' else ''false'')"

definition setCollapseState :: "collapsible \<Rightarrow> bool \<Rightarrow> collapsible completion" where
  "setCollapseState this doCollapse =
     (let s1 = this\<lparr>className :=
                 (if doCollapse then className this @ '' collapsed''
                  else removeFirst '' collapsed'' (className this))\<rparr>
      in case trigger s1 of
           None \<Rightarrow> Throw TypeError s1
         | Some t \<Rightarrow>
             (let s2 = s1\<lparr>trigger := Some (t\<lparr>buttonAttrs :=
                          setAttribute (buttonAttrs t) ''aria-expanded'' (boolString (\<not> doCollapse))\<rparr>)\<rparr>
              in case contents s2 of
                   None \<Rightarrow> Throw TypeError s2
                 | Some c \<Rightarrow>
                     Normal (s2\<lparr>contents := Some (setAttribute c ''aria-hidden'' (boolString doCollapse)),
                               collapsed := doCollapse\<rparr>)))"

text \<open>
  The loop \<open>while (heading.firstChild != null) trigger.appendChild(heading.firstChild)\<close>:
  each turn takes the first child of the heading and puts it last in the button.
\<close>

fun moveChildren :: "dom_node list \<Rightarrow> dom_node list \<Rightarrow> dom_node list \<times> dom_node list" where
  "moveChildren [] buttonNodes = ([], buttonNodes)"
| "moveChildren (n # headingNodes) buttonNodes = moveChildren headingNodes (buttonNodes @ [n])"

definition init :: "collapsible \<Rightarrow> collapsible completion" where
  "init this =
     (case (heading this, contents this) of
        (Some h, Some c) \<Rightarrow>
          (let t1 = \<lparr>buttonAttrs = setAttribute [] ''type'' ''button'', buttonChildren = [],
                     onclick = False\<rparr>
           in case getAttribute c ''id'' of
                None \<Rightarrow> Throw TypeError (this\<lparr>trigger := Some t1\<rparr>)
              | Some contentsId \<Rightarrow>
                  (let t2 = (if length contentsId > 0
                             then t1\<lparr>buttonAttrs := setAttribute (buttonAttrs t1) ''aria-controls'' contentsId\<rparr>
                             else t1);
                       t3 = t2\<lparr>onclick := True\<rparr>;
                       (h', nodes) = moveChildren h (buttonChildren t3);
                       s = this\<lparr>heading := Some (h' @ [TriggerNode]),
                                trigger := Some (t3\<lparr>buttonChildren := nodes\<rparr>)\<rparr>
                   in case setCollapseState s True of
                        Normal s' \<Rightarrow> Normal (s'\<lparr>className := className s' @ '' scripted''\<rparr>)
                      | Throw e s' \<Rightarrow> Throw e s'))
      | _ \<Rightarrow> Normal this)"

text \<open>The click handler of the trigger.\<close>

definition click :: "collapsible \<Rightarrow> collapsible completion" where
  "click this = setCollapseState this (\<not> collapsed this)"

text \<open>
  The classes of an element, for stating what a \<open>className\<close> means: the pieces between
  white space, without the empty ones.
\<close>

definition whiteSpace :: "char \<Rightarrow> bool" where
  "whiteSpace c = (c \<in> set [CHR '' '', CHR 0x09, CHR 0x0A, CHR 0x0C, CHR 0x0D])"

fun classTokens :: "string \<Rightarrow> string \<Rightarrow> string list" where
  "classTokens acc [] = (if acc = [] then [] else [acc])"
| "classTokens acc (c # cs) =
     (if whiteSpace c then (if acc = [] then classTokens [] cs else acc # classTokens [] cs)
      else classTokens (acc @ [c]) cs)"

definition classList :: "string \<Rightarrow> string set" where
  "classList cn = set (classTokens [] cn)"

text \<open>
  A section is set up when its button and its contents are there and carry the ARIA values
  that belong to its \<open>collapsed\<close> flag, as they do after \<open>init\<close> and after every later
  call of \<open>setCollapseState\<close>.
\<close>

definition isSetUp :: "collapsible \<Rightarrow> bool" where
  "isSetUp this =
     (case (trigger this, contents this) of
        (Some t, Some c) \<Rightarrow>
          getAttribute (buttonAttrs t) ''aria-expanded'' = Some (boolString (\<not> collapsed this)) \<and>
          getAttribute c ''aria-hidden'' = Some (boolString (collapsed this))
      | _ \<Rightarrow> False)"

section \<open>Setting up a filter container and handling its events\<close>

text \<open>
  A filter part is an element with \<open>data-filter-name\<close>, together with the controls that
  \<open>querySelectorAll('[data-filter]')\<close> finds in it when it is set up.
\<close>

record filterPart =
  filterName :: string
  filterDefault :: "string option"
  filterControls :: "control list"

text \<open>
  The page as one filter container sees it: the window, the pattern sources that the
  pattern parser of the browser rejects, the attributes of the container, its filter parts
  (the container itself when it has \<open>data-filter-name\<close>, its descendants with that
  attribute otherwise), the child nodes of the target list (\<open>None\<close> when
  \<open>getElementById\<close> answers \<open>null\<close>), the \<open>currentFilter\<close> object shared by the
  handlers of the container, and the number of parts whose listeners are registered
  (the parts are set up in document order, so these are the first ones).

  The pattern parser belongs to the browser and not to the scripts: whether it throws a
  \<open>SyntaxError\<close> for a pattern source is a fact about the browser that the page records
  in \<open>rejectedPatterns\<close>. Every browser rejects the source \<open>(?:^|;)c++=([^;]+)\<close>, for
  one, since the second \<open>+\<close> has nothing to repeat.
\<close>

record page =
  win :: window
  rejectedPatterns :: "string list"
  dataFilterTarget :: "string option"
  dataFilterJoin :: "string option"
  containerHidden :: bool
  filterParts :: "filterPart list"
  targetList :: "child_node list option"
  currentFilter :: filter_obj
  listeners :: nat

definition stateOf :: "'a completion \<Rightarrow> 'a" where
  "stateOf r = (case r of Normal s \<Rightarrow> s | Throw e s \<Rightarrow> s)"

definition defaultValueOf :: "filterPart \<Rightarrow> string" where
  "defaultValueOf part = (case filterDefault part of Some d \<Rightarrow> d | None \<Rightarrow> ''*'')"

text \<open>\<open>setAttribute\<close> writes \<open>null\<close> as the text \<open>null\<close>.\<close>

definition nullString :: "string option \<Rightarrow> string" where
  "nullString v = (case v of None \<Rightarrow> ''null'' | Some s \<Rightarrow> s)"

text \<open>
  The call \<open>updateListFromFilter(list, currentFilter, joinType)\<close> of the handlers and of
  \<open>setupFilter\<close>: reading \<open>childNodes\<close> of \<open>null\<close> throws.
\<close>

definition applyFilterToList :: "page \<Rightarrow> page completion" where
  "applyFilterToList st =
     (case targetList st of
        None \<Rightarrow> Throw TypeError st
      | Some children \<Rightarrow>
          Normal (st\<lparr>targetList := Some (updateListFromFilter children (currentFilter st)
                                            (joinTypeOf (dataFilterJoin st)))\<rparr>))"

text \<open>The two pattern sources that the scripts build from a key.\<close>

definition decoderPattern :: "string \<Rightarrow> string" where
  "decoderPattern key = ''(?:^|;)'' @ key @ ''=([^;]+)''"

definition encoderPattern :: "string \<Rightarrow> string" where
  "encoderPattern key = ''('' @ key @ ''=[^;]*)''"

text \<open>
  The call \<open>updateFilterPartFromUrl(currentFilter, key, defaultValue)\<close> in a page.
  \<open>match\<close> compiles the pattern of the key only when \<open>location.hash\<close> holds a filter;
  it throws for a rejected pattern, and then nothing is assigned.
\<close>

definition callUpdateFilterPartFromUrl :: "page \<Rightarrow> string \<Rightarrow> string \<Rightarrow> page completion" where
  "callUpdateFilterPartFromUrl st key defaultValue =
     (if matchFilterInUrl (location_hash (win st)) \<noteq> None \<and>
         decoderPattern key \<in> set (rejectedPatterns st)
      then Throw SyntaxError st
      else Normal (st\<lparr>currentFilter :=
                        updateFilterPartFromUrl (currentFilter st) key defaultValue (win st)\<rparr>))"

text \<open>
  The call \<open>updateUrlFromFilterPart(currentFilter, key)\<close> in a page: \<open>new RegExp\<close>
  compiles the pattern of the key first, whether or not \<open>history.pushState\<close> exists.
\<close>

definition callUpdateUrlFromFilterPart :: "page \<Rightarrow> string \<Rightarrow> page completion" where
  "callUpdateUrlFromFilterPart st key =
     (if encoderPattern key \<in> set (rejectedPatterns st)
      then Throw SyntaxError st
      else Normal (st\<lparr>win := updateUrlFromFilterPart (currentFilter st) key (win st)\<rparr>))"

text \<open>
  \<open>setupFilterPart\<close> for part \<open>i\<close>: the default is assigned, the two listeners are
  registered, the controls get \<open>aria-controls\<close> and the container loses \<open>hidden\<close>
  before the fragment is read; an exception of that read leaves all of this done.
\<close>

definition setupFilterPart :: "nat \<Rightarrow> page \<Rightarrow> page completion" where
  "setupFilterPart i st =
     (let part = filterParts st ! i;
          name = filterName part;
          defaultValue = defaultValueOf part;
          controls1 = map (\<lambda>c. c\<lparr>ariaControls := Some (nullString (dataFilterTarget st))\<rparr>)
                        (filterControls part);
          st1 = st\<lparr>containerHidden := False,
                   filterParts := (filterParts st)[i := part\<lparr>filterControls := controls1\<rparr>],
                   currentFilter := filterSet (currentFilter st) name defaultValue,
                   listeners := Suc (listeners st)\<rparr>
      in case callUpdateFilterPartFromUrl st1 name defaultValue of
           Throw e st2 \<Rightarrow> Throw e st2
         | Normal st2 \<Rightarrow>
             Normal (st2\<lparr>filterParts := (filterParts st2)
                       [i := part\<lparr>filterControls :=
                          updateControlsFromFilterPart controls1 (currentFilter st2) name\<rparr>]\<rparr>))"

text \<open>
  The \<open>forEach\<close> of \<open>setupFilter\<close> over the parts: an exception ends it, and the parts
  after the one that threw are not set up.
\<close>

fun setupFilterParts :: "nat list \<Rightarrow> page \<Rightarrow> page completion" where
  "setupFilterParts [] st = Normal st"
| "setupFilterParts (i # rest) st =
     (case setupFilterPart i st of
        Throw e st' \<Rightarrow> Throw e st'
      | Normal st' \<Rightarrow> setupFilterParts rest st')"

definition setupFilter :: "page \<Rightarrow> page completion" where
  "setupFilter filterContainer =
     (case setupFilterParts [0..<length (filterParts filterContainer)]
             (filterContainer\<lparr>currentFilter := [], listeners := 0\<rparr>) of
        Throw e st \<Rightarrow> Throw e st
      | Normal st \<Rightarrow> applyFilterToList st)"

text \<open>The \<open>change\<close> listener and the \<open>popstate\<close> listener that part \<open>i\<close> registers.\<close>

definition onChange :: "nat \<Rightarrow> page \<Rightarrow> page completion" where
  "onChange i st =
     (let part = filterParts st ! i;
          st1 = st\<lparr>currentFilter := updateFilterPartFromControls (currentFilter st)
                                        (filterName part) (filterControls part)\<rparr>
      in case callUpdateUrlFromFilterPart st1 (filterName part) of
           Throw e st2 \<Rightarrow> Throw e st2
         | Normal st2 \<Rightarrow> applyFilterToList st2)"

definition onPopstate :: "nat \<Rightarrow> page \<Rightarrow> page completion" where
  "onPopstate i st =
     (let part = filterParts st ! i
      in case callUpdateFilterPartFromUrl st (filterName part) (defaultValueOf part) of
           Throw e st1 \<Rightarrow> Throw e st1
         | Normal st1 \<Rightarrow>
             applyFilterToList
               (st1\<lparr>filterParts := (filterParts st1)
                  [i := part\<lparr>filterControls :=
                     updateControlsFromFilterPart (filterControls part) (currentFilter st1)
                       (filterName part)\<rparr>]\<rparr>))"

text \<open>
  What can happen after the setup: the user sets the \<open>checked\<close> or \<open>selected\<close> property
  of control \<open>j\<close> of part \<open>i\<close>, a \<open>change\<close> event reaches part \<open>i\<close>, or the browser moves
  to a history entry with the given fragment and fires \<open>popstate\<close>, which runs the
  registered listeners in the order of registration. A part whose listeners are not
  registered does not react. An exception thrown by a listener is reported by the browser
  and does not undo what the listener has done, nor stop the listeners after it.
\<close>

datatype event = UserSets nat nat bool | Change nat | Popstate string

definition userSets :: "nat \<Rightarrow> bool \<Rightarrow> control list \<Rightarrow> control list" where
  "userSets j b controls =
     (if j < length controls
      then controls[j := (if tagName (controls ! j) = ''OPTION''
                          then (controls ! j)\<lparr>selected := b\<rparr>
                          else (controls ! j)\<lparr>checked := b\<rparr>)]
      else controls)"

fun handleEvent :: "page \<Rightarrow> event \<Rightarrow> page" where
  "handleEvent st (UserSets i j b) =
     (if i < length (filterParts st)
      then st\<lparr>filterParts := (filterParts st)
                 [i := (filterParts st ! i)\<lparr>filterControls :=
                          userSets j b (filterControls (filterParts st ! i))\<rparr>]\<rparr>
      else st)"
| "handleEvent st (Change i) =
     (if i < listeners st \<and> i < length (filterParts st) then stateOf (onChange i st) else st)"
| "handleEvent st (Popstate fragment) =
     foldl (\<lambda>s i. stateOf (onPopstate i s))
       (st\<lparr>win := (win st)\<lparr>location_hash := fragment\<rparr>\<rparr>)
       [0..<min (listeners st) (length (filterParts st))]"



section \<open>The jQuery version of the filter script\<close>

text \<open>
  \<open>filter_jquery.js\<close> has the same functions with three differences: there is no join
  type and the empty string, not \<open>*\<close>, is the value that matches every item; a control
  counts when its \<open>checked\<close> or \<open>selected\<close> property is set, whatever its tag, and
  \<open>data-filter-off\<close> is not read; the decoder has no default parameter and falls back to
  the empty string. \<open>attr\<close> answers \<open>undefined\<close>, here \<open>None\<close>, for a missing attribute;
  \<open>show\<close> and \<open>hide\<close> set the visibility of an item, which is all that is kept of them.
\<close>

fun hides_jq :: "filter_obj \<Rightarrow> attrs \<Rightarrow> bool" where
  "hides_jq [] item = False"
| "hides_jq ((key, wantedValue) # rest) item =
     (if length wantedValue > 0 \<and> getAttribute item (''data-filter-'' @ key) \<noteq> Some wantedValue
      then True else hides_jq rest item)"

definition updateListFromFilter_jq :: "attrs list \<Rightarrow> filter_obj \<Rightarrow> (attrs \<times> bool) list" where
  "updateListFromFilter_jq items flt = map (\<lambda>item. (item, \<not> hides_jq flt item)) items"

definition controlStep_jq :: "string \<Rightarrow> filter_obj \<Rightarrow> control \<Rightarrow> filter_obj" where
  "controlStep_jq key flt c =
     (if checked c \<or> selected c then filterSet flt key (dataFilter c) else flt)"

definition updateFilterPartFromControls_jq :: "filter_obj \<Rightarrow> string \<Rightarrow> control list \<Rightarrow> filter_obj" where
  "updateFilterPartFromControls_jq flt key controls =
     foldl (controlStep_jq key) (filterSet flt key []) controls"

definition updateFilterPartFromUrl_jq :: "filter_obj \<Rightarrow> string \<Rightarrow> window \<Rightarrow> filter_obj" where
  "updateFilterPartFromUrl_jq flt key w =
     filterSet flt key
       (case matchFilterInUrl (location_hash w) of
          None \<Rightarrow> []
        | Some r \<Rightarrow> (case matchFilterValue key r of None \<Rightarrow> [] | Some v \<Rightarrow> v))"

section \<open>The jQuery version of the collapsible section\<close>

text \<open>
  The other version of the script reaches the elements through jQuery sets, whose methods
  do nothing on an empty set. \<open>addClass\<close> and \<open>removeClass\<close> work on whole class names,
  so the classes of the section are kept as the list of its class names. The heading is
  the first match of \<open>.heading\<close> (\<open>None\<close> for the empty set), the contents are all
  matches of \<open>.contents\<close>, and \<open>this.trigger\<close> is \<open>null\<close> (\<open>None\<close>) until \<open>init\<close> stores the
  set of buttons that \<open>wrapInner\<close> has put into the heading.
\<close>

record collapsible_jq =
  classNames_jq :: "string list"
  heading_jq :: "dom_node list option"
  contents_jq :: "attrs list"
  collapsed_jq :: bool
  trigger_jq :: "button list option"

definition addClass :: "string list \<Rightarrow> string \<Rightarrow> string list" where
  "addClass names c = (if c \<in> set names then names else names @ [c])"

definition removeClass :: "string list \<Rightarrow> string \<Rightarrow> string list" where
  "removeClass names c = filter (\<lambda>x. x \<noteq> c) names"

definition setCollapseState_jq :: "collapsible_jq \<Rightarrow> bool \<Rightarrow> collapsible_jq completion" where
  "setCollapseState_jq this doCollapse =
     (let s1 = this\<lparr>classNames_jq :=
                 (if doCollapse then addClass (classNames_jq this) ''collapsed''
                  else removeClass (classNames_jq this) ''collapsed'')\<rparr>
      in case trigger_jq s1 of
           None \<Rightarrow> Throw TypeError s1
         | Some ts \<Rightarrow>
             Normal (s1\<lparr>contents_jq :=
                          map (\<lambda>c. setAttribute c ''aria-hidden'' (boolString doCollapse)) (contents_jq s1),
                        collapsed_jq := doCollapse,
                        trigger_jq := Some (map (\<lambda>t. t\<lparr>buttonAttrs :=
                            setAttribute (buttonAttrs t) ''aria-expanded'' (boolString (\<not> doCollapse))\<rparr>) ts)\<rparr>))"

definition init_jq :: "collapsible_jq \<Rightarrow> collapsible_jq completion" where
  "init_jq this =
     (let t1 = \<lparr>buttonAttrs = setAttribute [] ''type'' ''button'', buttonChildren = [],
                onclick = False\<rparr>;
          contentsId = (case contents_jq this of [] \<Rightarrow> None | c # cs \<Rightarrow> getAttribute c ''id'');
          t2 = (case contentsId of
                  None \<Rightarrow> t1
                | Some cid \<Rightarrow>
                    if length cid > 0
                    then t1\<lparr>buttonAttrs := setAttribute (buttonAttrs t1) ''aria-controls'' cid\<rparr>
                    else t1);
          s = (case heading_jq this of
                 None \<Rightarrow> this\<lparr>trigger_jq := Some []\<rparr>
               | Some nodes \<Rightarrow>
                   this\<lparr>heading_jq := Some [TriggerNode],
                        trigger_jq := Some [t2\<lparr>buttonChildren := nodes, onclick := True\<rparr>]\<rparr>)
      in case setCollapseState_jq s True of
           Normal s' \<Rightarrow> Normal (s'\<lparr>classNames_jq := addClass (classNames_jq s') ''scripted''\<rparr>)
         | Throw e s' \<Rightarrow> Throw e s')"

section \<open>Attribute lemmas\<close>

lemma hasAttribute_setAttribute: "hasAttribute (setAttribute el name v) name"
  by (induction el) (auto simp: hasAttribute_def)

lemma hasAttribute_removeAttribute: "\<not> hasAttribute (removeAttribute el name) name"
  by (induction el) (auto simp: hasAttribute_def removeAttribute_def)

lemma isShown_updateItem: "isShown (updateItem joinType flt item) = shouldShow joinType flt item"
  by (simp add: isShown_def updateItem_def hasAttribute_setAttribute hasAttribute_removeAttribute)

section \<open>The \<open>and\<close> join\<close>

lemma shouldShow_Nil: "shouldShow joinType [] item = (joinType \<noteq> JoinOr)"
  by (simp add: shouldShow_def)

lemma shouldShow_and_Cons:
  "shouldShow JoinAnd (e # rest) item = (\<not> mismatches item e \<and> shouldShow JoinAnd rest item)"
  by (cases e) (auto simp: shouldShow_def mismatches_def Let_def split: prod.splits)

lemma keysEvaluated_and_Cons:
  "keysEvaluated JoinAnd (e # rest) item =
     (if mismatches item e then [fst e] else fst e # keysEvaluated JoinAnd rest item)"
  by (cases e) (auto simp: keysEvaluated_def mismatches_def Let_def split: prod.splits)

lemma shouldShow_and: "shouldShow JoinAnd flt item \<longleftrightarrow> (\<forall>e \<in> set flt. \<not> mismatches item e)"
  by (induction flt) (simp_all add: shouldShow_Nil shouldShow_and_Cons)

lemma keysEvaluated_and_break:
  "\<forall>e \<in> set pre. \<not> mismatches item e \<Longrightarrow> mismatches item (key, wanted) \<Longrightarrow>
   keysEvaluated JoinAnd (pre @ (key, wanted) # post) item = map fst pre @ [key]"
  by (induction pre) (simp_all add: keysEvaluated_and_Cons)

lemma updateListFromFilter_nth:
  "i < length children \<Longrightarrow> children ! i = ElementNode item \<Longrightarrow>
   updateListFromFilter children flt joinType ! i = ElementNode (updateItem joinType flt item)"
  by (simp add: updateListFromFilter_def)

text \<open>
  Claim C1. In the \<open>and\<close> join, every element child of the list is shown after
  \<open>updateListFromFilter\<close> exactly when each key whose wanted value is not \<open>*\<close> finds the
  item's \<open>data-filter-<key>\<close> attribute equal to that wanted value. At the first key that
  mismatches the item is hidden and the loop has looked at the keys up to that one and at
  no later key.
\<close>

theorem updateListFromFilter_and:
  assumes "i < length children" and "children ! i = ElementNode item"
  shows "\<exists>item'. updateListFromFilter children flt JoinAnd ! i = ElementNode item' \<and>
     (isShown item' \<longleftrightarrow>
        (\<forall>(key, wanted) \<in> set flt.
           wanted \<noteq> ''*'' \<longrightarrow> getAttribute item (''data-filter-'' @ key) = Some wanted)) \<and>
     (\<forall>pre key wanted post.
        flt = pre @ (key, wanted) # post \<longrightarrow>
        (\<forall>(k, w) \<in> set pre. w \<noteq> ''*'' \<longrightarrow> getAttribute item (''data-filter-'' @ k) = Some w) \<longrightarrow>
        wanted \<noteq> ''*'' \<longrightarrow> getAttribute item (''data-filter-'' @ key) \<noteq> Some wanted \<longrightarrow>
        \<not> isShown item' \<and> keysEvaluated JoinAnd flt item = map fst pre @ [key])"
proof -
  let ?item' = "updateItem JoinAnd flt item"
  have nth: "updateListFromFilter children flt JoinAnd ! i = ElementNode ?item'"
    using assms by (rule updateListFromFilter_nth)
  have shown: "isShown ?item' \<longleftrightarrow> (\<forall>e \<in> set flt. \<not> mismatches item e)"
    by (simp add: isShown_updateItem shouldShow_and)
  have iff: "isShown ?item' \<longleftrightarrow>
        (\<forall>(key, wanted) \<in> set flt.
           wanted \<noteq> ''*'' \<longrightarrow> getAttribute item (''data-filter-'' @ key) = Some wanted)"
    unfolding shown by (auto simp: mismatches_def)
  have brk: "\<not> isShown ?item' \<and> keysEvaluated JoinAnd flt item = map fst pre @ [key]"
    if "flt = pre @ (key, wanted) # post"
      and "\<forall>(k, w) \<in> set pre. w \<noteq> ''*'' \<longrightarrow> getAttribute item (''data-filter-'' @ k) = Some w"
      and "wanted \<noteq> ''*''" and "getAttribute item (''data-filter-'' @ key) \<noteq> Some wanted"
    for pre key wanted post
  proof -
    have ok: "\<forall>e \<in> set pre. \<not> mismatches item e"
      using that(2) by (auto simp: mismatches_def)
    have bad: "mismatches item (key, wanted)"
      using that(3,4) by (simp add: mismatches_def)
    have "\<not> isShown ?item'"
      unfolding shown using bad that(1) by auto
    moreover have "keysEvaluated JoinAnd flt item = map fst pre @ [key]"
      unfolding that(1) using ok bad by (rule keysEvaluated_and_break)
    ultimately show ?thesis by simp
  qed
  show ?thesis
  proof (intro exI [of _ ?item'] conjI)
    show "updateListFromFilter children flt JoinAnd ! i = ElementNode ?item'" by (rule nth)
    show "isShown ?item' \<longleftrightarrow>
        (\<forall>(key, wanted) \<in> set flt.
           wanted \<noteq> ''*'' \<longrightarrow> getAttribute item (''data-filter-'' @ key) = Some wanted)" by (rule iff)
    show "\<forall>pre key wanted post.
        flt = pre @ (key, wanted) # post \<longrightarrow>
        (\<forall>(k, w) \<in> set pre. w \<noteq> ''*'' \<longrightarrow> getAttribute item (''data-filter-'' @ k) = Some w) \<longrightarrow>
        wanted \<noteq> ''*'' \<longrightarrow> getAttribute item (''data-filter-'' @ key) \<noteq> Some wanted \<longrightarrow>
        \<not> isShown ?item' \<and> keysEvaluated JoinAnd flt item = map fst pre @ [key]"
      by (intro allI impI, rule brk) assumption+
  qed
qed

text \<open>
  The theorem at a list whose second child is an item from Sweden, under a filter that
  asks for Norway after a wildcard: the item is hidden and \<open>tag2\<close> is never looked at.
\<close>

theorem updateListFromFilter_and_witness:
  "(\<exists>item'. updateListFromFilter
       [OtherNode ''text'', ElementNode [(''data-filter-country'', ''Sweden''), (''data-filter-tag'', ''eco'')]]
       [(''tag'', ''*''), (''country'', ''Norway''), (''tag2'', ''eco'')] JoinAnd ! 1 = ElementNode item' \<and> \<not> isShown item') \<and>
   keysEvaluated JoinAnd [(''tag'', ''*''), (''country'', ''Norway''), (''tag2'', ''eco'')]
       [(''data-filter-country'', ''Sweden''), (''data-filter-tag'', ''eco'')] = [''tag'', ''country'']"
proof -
  let ?item = "[(''data-filter-country'', ''Sweden''), (''data-filter-tag'', ''eco'')]"
  let ?children = "[OtherNode ''text'', ElementNode ?item]"
  let ?flt = "[(''tag'', ''*''), (''country'', ''Norway''), (''tag2'', ''eco'')]"
  have h1: "1 < length ?children" by simp
  have h2: "?children ! 1 = ElementNode ?item" by simp
  from updateListFromFilter_and [OF h1 h2, of ?flt]
  obtain item' where a: "updateListFromFilter ?children ?flt JoinAnd ! 1 = ElementNode item'"
    and b: "\<forall>pre key wanted post.
        ?flt = pre @ (key, wanted) # post \<longrightarrow>
        (\<forall>(k, w) \<in> set pre. w \<noteq> ''*'' \<longrightarrow> getAttribute ?item (''data-filter-'' @ k) = Some w) \<longrightarrow>
        wanted \<noteq> ''*'' \<longrightarrow> getAttribute ?item (''data-filter-'' @ key) \<noteq> Some wanted \<longrightarrow>
        \<not> isShown item' \<and> keysEvaluated JoinAnd ?flt ?item = map fst pre @ [key]"
    by (elim exE conjE)
  have c: "\<not> isShown item' \<and> keysEvaluated JoinAnd ?flt ?item = map fst [(''tag'', ''*'')] @ [''country'']"
    by (rule b [rule_format, of "[(''tag'', ''*'')]" "''country''" "''Norway''" "[(''tag2'', ''eco'')]"])
       (simp_all add: getAttribute_def)
  from c have c1: "\<not> isShown item'" and c2: "keysEvaluated JoinAnd ?flt ?item = [''tag'', ''country'']" by simp_all
  from a c1 have "\<exists>item'. updateListFromFilter ?children ?flt JoinAnd ! 1 = ElementNode item' \<and> \<not> isShown item'" by (intro exI [of _ item'] conjI)
  with c2 show ?thesis by (intro conjI)
qed

section \<open>The \<open>or\<close> join\<close>

lemma shouldShow_or_Cons:
  "shouldShow JoinOr (e # rest) item = (matchesOr item e \<or> shouldShow JoinOr rest item)"
  by (cases e) (auto simp: shouldShow_def matchesOr_def Let_def split: prod.splits)

lemma shouldShow_or: "shouldShow JoinOr flt item \<longleftrightarrow> (\<exists>e \<in> set flt. matchesOr item e)"
  by (induction flt) (simp_all add: shouldShow_Nil shouldShow_or_Cons)

lemma keysEvaluated_or_Cons:
  "keysEvaluated JoinOr (e # rest) item =
     (if matchesOr item e then [fst e] else fst e # keysEvaluated JoinOr rest item)"
  by (cases e) (auto simp: keysEvaluated_def matchesOr_def Let_def split: prod.splits)

text \<open>At the first key that matches, the \<open>or\<close> loop stops as well.\<close>

lemma keysEvaluated_or_break:
  "\<forall>e \<in> set pre. \<not> matchesOr item e \<Longrightarrow> matchesOr item (key, wanted) \<Longrightarrow>
   keysEvaluated JoinOr (pre @ (key, wanted) # post) item = map fst pre @ [key]"
  by (induction pre) (simp_all add: keysEvaluated_or_Cons)

text \<open>
  Claim C2, as the code has it. In the \<open>or\<close> join, every element child of the list is
  shown after \<open>updateListFromFilter\<close> exactly when the filter has a key whose wanted value
  is \<open>*\<close> or equals the item's \<open>data-filter-<key>\<close> attribute. One wildcard among the
  wanted values is enough to show every item, and under a filter with no key every item
  is hidden.
\<close>

theorem updateListFromFilter_or:
  assumes "i < length children" and "children ! i = ElementNode item"
  shows "\<exists>item'. updateListFromFilter children flt JoinOr ! i = ElementNode item' \<and>
     (isShown item' \<longleftrightarrow>
        (\<exists>(key, wanted) \<in> set flt.
           wanted = ''*'' \<or> getAttribute item (''data-filter-'' @ key) = Some wanted))"
proof -
  let ?item' = "updateItem JoinOr flt item"
  have nth: "updateListFromFilter children flt JoinOr ! i = ElementNode ?item'"
    using assms by (rule updateListFromFilter_nth)
  have "isShown ?item' \<longleftrightarrow> (\<exists>e \<in> set flt. matchesOr item e)"
    by (simp add: isShown_updateItem shouldShow_or)
  then have iff: "isShown ?item' \<longleftrightarrow>
        (\<exists>(key, wanted) \<in> set flt.
           wanted = ''*'' \<or> getAttribute item (''data-filter-'' @ key) = Some wanted)"
    by (simp add: matchesOr_def case_prod_beta)
  show ?thesis
    by (intro exI [of _ ?item'] conjI) (rule nth, rule iff)
qed

text \<open>
  The theorem at an item that was hidden and carries the wanted tag: it is shown again.
\<close>

theorem updateListFromFilter_or_witness:
  "\<exists>item'. updateListFromFilter [ElementNode [(''data-filter-tag'', ''eco''), (''hidden'', ''hidden'')]]
       [(''country'', ''Norway''), (''tag'', ''eco'')] JoinOr ! 0 = ElementNode item' \<and> isShown item'"
proof -
  let ?item = "[(''data-filter-tag'', ''eco''), (''hidden'', ''hidden'')]"
  let ?flt = "[(''country'', ''Norway''), (''tag'', ''eco'')]"
  have h1: "0 < length [ElementNode ?item]" by simp
  have h2: "[ElementNode ?item] ! 0 = ElementNode ?item" by simp
  from updateListFromFilter_or [OF h1 h2, of ?flt]
  obtain item' where a: "updateListFromFilter [ElementNode ?item] ?flt JoinOr ! 0 = ElementNode item'"
    and b: "isShown item' \<longleftrightarrow>
        (\<exists>(key, wanted) \<in> set ?flt.
           wanted = ''*'' \<or> getAttribute ?item (''data-filter-'' @ key) = Some wanted)"
    by (elim exE conjE)
  have "\<exists>(key, wanted) \<in> set ?flt.
           wanted = ''*'' \<or> getAttribute ?item (''data-filter-'' @ key) = Some wanted"
    by (simp add: getAttribute_def)
  with b have "isShown item'" by (rule iffD2)
  with a show ?thesis by (intro exI [of _ item'] conjI)
qed

text \<open>
  The claim as the specification states it fails where the filter mixes a wildcard with a
  key that does not match: the loop stops at the wildcard and shows the item, although no
  non-wildcard key matches and the filter is not made of wildcards only.
\<close>

theorem updateListFromFilter_or_counterexample:
  "updateListFromFilter [ElementNode [(''data-filter-country'', ''Norway''), (''data-filter-tag'', ''bio'')]]
       [(''country'', ''*''), (''tag'', ''eco'')] JoinOr
     = [ElementNode [(''data-filter-country'', ''Norway''), (''data-filter-tag'', ''bio'')]] \<and>
   isShown [(''data-filter-country'', ''Norway''), (''data-filter-tag'', ''bio'')] \<and>
   \<not> orJoinAsClaimed [(''country'', ''*''), (''tag'', ''eco'')]
       [(''data-filter-country'', ''Norway''), (''data-filter-tag'', ''bio'')]"
  by (simp add: updateListFromFilter_def updateItem_def shouldShow_def getAttribute_def
      removeAttribute_def isShown_def hasAttribute_def orJoinAsClaimed_def)

text \<open>
  Under the empty filter the loop body never runs, so the item stays hidden, while the
  wording "entirely wildcards" holds of the empty mapping.
\<close>

lemma updateListFromFilter_or_empty:
  "updateListFromFilter [ElementNode []] [] JoinOr = [ElementNode [(''hidden'', ''hidden'')]] \<and>
   orJoinAsClaimed [] []"
  by (simp add: updateListFromFilter_def updateItem_def shouldShow_def orJoinAsClaimed_def)

section \<open>Lemmas on the filter object\<close>

lemma filterGet_filterSet_same: "filterGet (filterSet flt key v) key = Some v"
  by (induction flt) (auto simp: filterGet_def)

lemma filterGet_filterSet_other: "k \<noteq> key \<Longrightarrow> filterGet (filterSet flt key v) k = filterGet flt k"
  by (induction flt) (auto simp: filterGet_def)

section \<open>Decoding a key from the fragment\<close>

















section \<open>Writing a key into the fragment and reading it back\<close>



lemma dotPlus_Some: "dotPlus s = Some r \<Longrightarrow> \<forall>c \<in> set r. \<not> lineTerminator c"
  by (auto simp: dotPlus_def Let_def split: if_splits dest: set_takeWhileD)

lemma matchExistingFilter_Some:
  "matchExistingFilter h = Some r \<Longrightarrow> \<forall>c \<in> set r. \<not> lineTerminator c"
  by (induction h) (auto simp: matchFilterInUrl_def split: option.splits if_splits dest: dotPlus_Some)

























text \<open>
  What becomes of the empty value depends on the fragment: where an earlier segment of
  the key is replaced and a later one follows, the later one is read.
\<close>

lemma url_roundtrip_empty_value_example:
  "location_hash (updateUrlFromFilterPart [(''a'', [])] ''a''
       \<lparr>location_hash = ''#!a=1;a=2'', hasPushState = True, pushed = []\<rparr>) = ''#!a=;a=2'' \<and>
   filterGet (updateFilterPartFromUrl [] ''a'' ''*''
      (updateUrlFromFilterPart [(''a'', [])] ''a''
         \<lparr>location_hash = ''#!a=1;a=2'', hasPushState = True, pushed = []\<rparr>)) ''a'' = Some ''2''"
  by code_simp

text \<open>
  The other hypotheses are needed as well. A space in the value comes back from the URL
  parser as \<open>%20\<close>, and the decoder does not undo that; a \<open>$&\<close> in the value is
  expanded by \<open>replace\<close> to the text it replaces; and without \<open>history.pushState\<close>
  nothing is written at all.
\<close>

lemma url_roundtrip_space_example:
  "location_hash (updateUrlFromFilterPart [(''city'', ''New York'')] ''city''
       \<lparr>location_hash = [], hasPushState = True, pushed = []\<rparr>) = ''#!city=New%20York'' \<and>
   filterGet (updateFilterPartFromUrl [] ''city'' ''*''
      (updateUrlFromFilterPart [(''city'', ''New York'')] ''city''
         \<lparr>location_hash = [], hasPushState = True, pushed = []\<rparr>)) ''city'' = Some ''New%20York''"
  by code_simp

lemma url_roundtrip_dollar_example:
  "filterGet (updateFilterPartFromUrl [] ''price'' ''*''
      (updateUrlFromFilterPart [(''price'', ''$&'')] ''price''
         \<lparr>location_hash = ''#!price=low'', hasPushState = True, pushed = []\<rparr>)) ''price''
     = Some ''price=low''"
  by code_simp

lemma url_roundtrip_no_pushState_example:
  "updateUrlFromFilterPart [(''country'', ''Norway'')] ''country''
      \<lparr>location_hash = ''#!country=Sweden'', hasPushState = False, pushed = []\<rparr>
     = \<lparr>location_hash = ''#!country=Sweden'', hasPushState = False, pushed = []\<rparr>"
  by (simp add: updateUrlFromFilterPart_def)

text \<open>
  Claim C3 at the fragment \<open>#!subtype=a\<close>. Writing \<open>type=b\<close> finds \<open>type=\<close> inside the
  segment of \<open>subtype\<close>, since the pattern of the encoder is not tied to the start of a
  segment: the value of \<open>subtype\<close>, which decoded to \<open>a\<close> before, decodes to \<open>b\<close>
  afterwards, and no segment for \<open>type\<close> is written.
\<close>

theorem updateUrlFromFilterPart_overwrites_other_key:
  "location_hash (updateUrlFromFilterPart [(''subtype'', ''a''), (''type'', ''b'')] ''type''
       \<lparr>location_hash = ''#!subtype=a'', hasPushState = True, pushed = []\<rparr>) = ''#!subtype=b'' \<and>
   filterGet (updateFilterPartFromUrl [] ''subtype'' ''*''
       \<lparr>location_hash = ''#!subtype=a'', hasPushState = True, pushed = []\<rparr>) ''subtype'' = Some ''a'' \<and>
   filterGet (updateFilterPartFromUrl [] ''subtype'' ''*''
      (updateUrlFromFilterPart [(''subtype'', ''a''), (''type'', ''b'')] ''type''
         \<lparr>location_hash = ''#!subtype=a'', hasPushState = True, pushed = []\<rparr>)) ''subtype'' = Some ''b''"
  by code_simp

section \<open>Reading a key from its controls\<close>









section \<open>What holds of the jQuery version of the collapsible section\<close>

text \<open>The jQuery version of \<open>init\<close> never throws, with or without an \<open>id\<close> on the contents.\<close>

lemma init_jq_returns: "\<exists>s. init_jq this = Normal s"
  by (simp add: init_jq_def setCollapseState_jq_def Let_def split: option.splits)

text \<open>
  It has no test for a missing heading: the section is marked \<open>collapsed\<close> and \<open>scripted\<close>
  all the same.
\<close>

lemma init_jq_missing_heading:
  "heading_jq this = None \<Longrightarrow> init_jq this = Normal s \<Longrightarrow>
   ''scripted'' \<in> set (classNames_jq s) \<and> ''collapsed'' \<in> set (classNames_jq s) \<and> collapsed_jq s"
  by (auto simp: init_jq_def setCollapseState_jq_def Let_def addClass_def)

text \<open>
  Two toggles keep the set of class names, whatever the other class names are, once the
  class \<open>collapsed\<close> is there exactly when the flag is set.
\<close>

lemma toggle_twice_jq_classes:
  assumes "trigger_jq this = Some ts"
    and "collapsed_jq this \<longleftrightarrow> ''collapsed'' \<in> set (classNames_jq this)"
  shows "\<exists>s1 s2. setCollapseState_jq this (\<not> collapsed_jq this) = Normal s1 \<and>
           setCollapseState_jq s1 (collapsed_jq this) = Normal s2 \<and>
           set (classNames_jq s2) = set (classNames_jq this) \<and>
           collapsed_jq s2 = collapsed_jq this"
  using assms
  by (cases "collapsed_jq this")
     (auto simp: setCollapseState_jq_def Let_def addClass_def removeClass_def)

section \<open>Setting up a collapsible section\<close>

text \<open>
  In the version without jQuery, \<open>init\<close> on a section for which \<open>querySelector\<close> finds
  no heading or no contents returns at once: it does not throw, and the object and the
  elements stay as they were, so the class \<open>scripted\<close> is not added.
\<close>

lemma init_returns_when_element_missing:
  "heading this = None \<or> contents this = None \<Longrightarrow> init this = Normal this"
  by (auto simp: init_def split: option.splits)

text \<open>
  Claim C7 at a section with contents and no heading, in the jQuery version of the script.
  Its \<open>init\<close> has no test for a missing element. It does not throw, but it does not
  leave the document as it was either: finding no heading it wraps nothing and finds no
  button (\<open>trigger\<close> is an empty jQuery set), and it still marks the section
  \<open>collapsed\<close> and \<open>scripted\<close>, sets the flag and hides the contents with
  \<open>aria-hidden\<close>.
\<close>

theorem init_jq_changes_section_without_heading:
  "init_jq \<lparr>classNames_jq = [''collapsibleSection''], heading_jq = None,
            contents_jq = [[(''class'', ''contents'')]], collapsed_jq = False, trigger_jq = None\<rparr>
     = Normal \<lparr>classNames_jq = [''collapsibleSection'', ''collapsed'', ''scripted''], heading_jq = None,
            contents_jq = [[(''class'', ''contents''), (''aria-hidden'', ''true'')]],
            collapsed_jq = True, trigger_jq = Some []\<rparr>"
  by (simp add: init_jq_def setCollapseState_jq_def Let_def addClass_def boolString_def getAttribute_def)

text \<open>
  Claim C8 at a section whose heading and contents are both there, the contents without an
  \<open>id\<close> attribute: \<open>getAttribute('id')\<close> is \<open>null\<close> and reading its \<open>length\<close> throws a
  \<open>TypeError\<close>. The button exists by then but is not in the document, the heading is
  not wrapped and the section is neither \<open>collapsed\<close> nor \<open>scripted\<close>.
\<close>

theorem init_throws_without_id:
  "init (CollapsibleSection \<lparr>className = ''collapsibleSection'',
           heading = Some [ContentNode ''Title''], contents = Some [(''class'', ''contents'')]\<rparr>)
     = Throw TypeError \<lparr>className = ''collapsibleSection'',
           heading = Some [ContentNode ''Title''], contents = Some [(''class'', ''contents'')],
           collapsed = False,
           trigger = Some \<lparr>buttonAttrs = [(''type'', ''button'')], buttonChildren = [],
                            onclick = False\<rparr>\<rparr>"
  by (simp add: init_def CollapsibleSection_def getAttribute_def)

text \<open>With both elements there, a missing \<open>id\<close> is the only way for \<open>init\<close> to throw.\<close>

lemma init_throws_iff:
  assumes "heading this = Some h" and "contents this = Some c"
  shows "(\<exists>s. init this = Throw TypeError s) \<longleftrightarrow> getAttribute c ''id'' = None"
  using assms
  by (auto simp: init_def setCollapseState_def Let_def split: option.splits prod.splits)

section \<open>Toggling a collapsible section\<close>

text \<open>
  Claim C9 at a section with the classes \<open>collapsibleSection\<close> and \<open>collapsedOnMobile\<close>.
  After \<open>init\<close> the section is collapsed. Expanding it removes the first text
  \<open> collapsed\<close> of \<open>className\<close>, which is the beginning of \<open> collapsedOnMobile\<close>;
  collapsing it again appends \<open> collapsed\<close>. The flag and the two ARIA attributes are back
  where they were, the classes are not: \<open>collapsedOnMobile\<close> is gone.
\<close>

theorem toggle_twice_changes_classes:
  "init (CollapsibleSection \<lparr>className = ''collapsibleSection collapsedOnMobile'',
           heading = Some [ContentNode ''Title''], contents = Some [(''id'', ''c1'')]\<rparr>)
     = Normal \<lparr>className = ''collapsibleSection collapsedOnMobile collapsed scripted'',
          heading = Some [TriggerNode], contents = Some [(''id'', ''c1''), (''aria-hidden'', ''true'')],
          collapsed = True,
          trigger = Some \<lparr>buttonAttrs = [(''type'', ''button''), (''aria-controls'', ''c1''),
                                          (''aria-expanded'', ''false'')],
                           buttonChildren = [ContentNode ''Title''], onclick = True\<rparr>\<rparr> \<and>
   setCollapseState \<lparr>className = ''collapsibleSection collapsedOnMobile collapsed scripted'',
          heading = Some [TriggerNode], contents = Some [(''id'', ''c1''), (''aria-hidden'', ''true'')],
          collapsed = True,
          trigger = Some \<lparr>buttonAttrs = [(''type'', ''button''), (''aria-controls'', ''c1''),
                                          (''aria-expanded'', ''false'')],
                           buttonChildren = [ContentNode ''Title''], onclick = True\<rparr>\<rparr> False
     = Normal \<lparr>className = ''collapsibleSectionOnMobile collapsed scripted'',
          heading = Some [TriggerNode], contents = Some [(''id'', ''c1''), (''aria-hidden'', ''false'')],
          collapsed = False,
          trigger = Some \<lparr>buttonAttrs = [(''type'', ''button''), (''aria-controls'', ''c1''),
                                          (''aria-expanded'', ''true'')],
                           buttonChildren = [ContentNode ''Title''], onclick = True\<rparr>\<rparr> \<and>
   setCollapseState \<lparr>className = ''collapsibleSectionOnMobile collapsed scripted'',
          heading = Some [TriggerNode], contents = Some [(''id'', ''c1''), (''aria-hidden'', ''false'')],
          collapsed = False,
          trigger = Some \<lparr>buttonAttrs = [(''type'', ''button''), (''aria-controls'', ''c1''),
                                          (''aria-expanded'', ''true'')],
                           buttonChildren = [ContentNode ''Title''], onclick = True\<rparr>\<rparr> True
     = Normal \<lparr>className = ''collapsibleSectionOnMobile collapsed scripted collapsed'',
          heading = Some [TriggerNode], contents = Some [(''id'', ''c1''), (''aria-hidden'', ''true'')],
          collapsed = True,
          trigger = Some \<lparr>buttonAttrs = [(''type'', ''button''), (''aria-controls'', ''c1''),
                                          (''aria-expanded'', ''false'')],
                           buttonChildren = [ContentNode ''Title''], onclick = True\<rparr>\<rparr> \<and>
   ''collapsedOnMobile'' \<in> classList ''collapsibleSection collapsedOnMobile collapsed scripted'' \<and>
   ''collapsedOnMobile'' \<notin> classList ''collapsibleSectionOnMobile collapsed scripted collapsed''"
  by (simp add: init_def CollapsibleSection_def getAttribute_def setCollapseState_def boolString_def
      Let_def classList_def whiteSpace_def)

section \<open>The keys of the filter mapping\<close>











lemma stateOf_simps [simp]: "stateOf (Normal s) = s" "stateOf (Throw e s) = s"
  by (simp_all add: stateOf_def)
























section \<open>What holds of the jQuery version of the filter script\<close>

lemma hides_jq_iff:
  "hides_jq flt item \<longleftrightarrow>
     (\<exists>(key, wanted) \<in> set flt. wanted \<noteq> [] \<and> getAttribute item (''data-filter-'' @ key) \<noteq> Some wanted)"
  by (induction flt item rule: hides_jq.induct) auto

lemma updateListFromFilter_jq_shows:
  "i < length items \<Longrightarrow>
   snd (updateListFromFilter_jq items flt ! i) \<longleftrightarrow>
     (\<forall>(key, wanted) \<in> set flt. wanted \<noteq> [] \<longrightarrow>
        getAttribute (items ! i) (''data-filter-'' @ key) = Some wanted)"
  by (auto simp: updateListFromFilter_jq_def hides_jq_iff)

text \<open>In this version \<open>*\<close> is a value like any other: it hides an item that does not declare it.\<close>

lemma updateListFromFilter_jq_star:
  "updateListFromFilter_jq [[(''data-filter-tag'', ''eco'')]] [(''tag'', ''*'')]
     = [([(''data-filter-tag'', ''eco'')], False)]"
  by (simp add: updateListFromFilter_jq_def getAttribute_def)

lemma foldl_controlStep_jq_skip:
  "\<forall>d \<in> set post. \<not> (checked d \<or> selected d) \<Longrightarrow> foldl (controlStep_jq key) flt post = flt"
  by (induction post arbitrary: flt) (simp_all add: controlStep_jq_def)

text \<open>
  Here the last control that is checked or selected decides, and a group without one gives
  the empty string, as claim C10 is worded.
\<close>

lemma updateFilterPartFromControls_jq_last:
  "(\<forall>pre c post. controls = pre @ c # post \<longrightarrow> checked c \<or> selected c \<longrightarrow>
      (\<forall>d \<in> set post. \<not> (checked d \<or> selected d)) \<longrightarrow>
      filterGet (updateFilterPartFromControls_jq flt key controls) key = Some (dataFilter c)) \<and>
   ((\<forall>d \<in> set controls. \<not> (checked d \<or> selected d)) \<longrightarrow>
      filterGet (updateFilterPartFromControls_jq flt key controls) key = Some [])"
  by (auto simp: updateFilterPartFromControls_jq_def foldl_controlStep_jq_skip controlStep_jq_def
      filterGet_filterSet_same)

lemma updateFilterPartFromUrl_jq_default:
  "updateFilterPartFromUrl_jq flt key w = updateFilterPartFromUrl flt key [] w"
  by (simp add: updateFilterPartFromUrl_jq_def updateFilterPartFromUrl_def)

section \<open>What two toggles restore\<close>

lemma setAttribute_twice:
  "setAttribute (setAttribute el name v) name v' = setAttribute el name v'"
  by (induction el name v rule: setAttribute.induct) auto

lemma setAttribute_same: "getAttribute el name = Some v \<Longrightarrow> setAttribute el name v = el"
  by (induction el name v rule: setAttribute.induct) (auto simp: getAttribute_def split: if_splits)

lemma map_of_setAttribute: "map_of (setAttribute el name v) name = Some v"
  by (induction el name v rule: setAttribute.induct) auto

lemma getAttribute_setAttribute: "getAttribute (setAttribute el name v) name = Some v"
  by (simp add: getAttribute_def map_of_setAttribute)

lemma setCollapseState_set_up:
  assumes "isSetUp this"
  shows "\<exists>s. setCollapseState this b = Normal s \<and> isSetUp s \<and> collapsed s = b \<and>
             heading s = heading this"
  using assms
  by (auto simp: isSetUp_def setCollapseState_def Let_def getAttribute_setAttribute
      split: option.splits)

lemma init_set_up:
  "init this = Normal s \<Longrightarrow> heading this \<noteq> None \<Longrightarrow> contents this \<noteq> None \<Longrightarrow>
   isSetUp s \<and> collapsed s"
  by (auto simp: init_def isSetUp_def setCollapseState_def Let_def map_of_setAttribute
      getAttribute_def boolString_def split: option.splits prod.splits if_splits)

text \<open>
  Two toggles of a section that is set up return without throwing and restore the button
  with its attributes, the contents with its attributes, the heading and the flag: the
  result differs from the original in \<open>className\<close> at most.
\<close>

lemma toggle_twice_restores_all_but_className:
  assumes "isSetUp this"
  shows "\<exists>s1 s2. setCollapseState this (\<not> collapsed this) = Normal s1 \<and>
           setCollapseState s1 (collapsed this) = Normal s2 \<and>
           s2 = this\<lparr>className := className s2\<rparr>"
proof -
  from assms obtain t c where t: "trigger this = Some t" and c: "contents this = Some c"
    and e: "getAttribute (buttonAttrs t) ''aria-expanded'' = Some (boolString (\<not> collapsed this))"
    and h: "getAttribute c ''aria-hidden'' = Some (boolString (collapsed this))"
    by (auto simp: isSetUp_def split: option.splits)
  have e': "setAttribute (buttonAttrs t) ''aria-expanded'' (boolString (\<not> collapsed this)) = buttonAttrs t"
    using e by (rule setAttribute_same)
  have h': "setAttribute c ''aria-hidden'' (boolString (collapsed this)) = c"
    using h by (rule setAttribute_same)
  show ?thesis
    using t c e' h'
    by (simp add: setCollapseState_def Let_def setAttribute_twice)
qed

text \<open>The same for two clicks on the trigger, each of which negates the flag it finds.\<close>

lemma click_twice_restores_all_but_className:
  assumes "isSetUp this"
  shows "\<exists>s1 s2. click this = Normal s1 \<and> click s1 = Normal s2 \<and>
           s2 = this\<lparr>className := className s2\<rparr>"
proof -
  from toggle_twice_restores_all_but_className [OF assms] obtain s1 s2
    where s1: "setCollapseState this (\<not> collapsed this) = Normal s1"
      and s2: "setCollapseState s1 (collapsed this) = Normal s2"
      and eq: "s2 = this\<lparr>className := className s2\<rparr>"
    by blast
  from setCollapseState_set_up [OF assms, of "\<not> collapsed this"] s1
  have "collapsed s1 = (\<not> collapsed this)" by auto
  with s1 s2 eq show ?thesis by (auto simp: click_def)
qed

section \<open>The scenarios of the specification\<close>

text \<open>
  Join type unset, filter \<open>{country: "Norway", tag: "*"}\<close>, one item from Norway and one
  from Sweden: only the first is shown.
\<close>

lemma scenario_and:
  "updateListFromFilter
     [ElementNode [(''data-filter-country'', ''Norway''), (''data-filter-tag'', ''eco'')],
      ElementNode [(''data-filter-country'', ''Sweden''), (''data-filter-tag'', ''eco'')]]
     [(''country'', ''Norway''), (''tag'', ''*'')] (joinTypeOf None)
   = [ElementNode [(''data-filter-country'', ''Norway''), (''data-filter-tag'', ''eco'')],
      ElementNode [(''data-filter-country'', ''Sweden''), (''data-filter-tag'', ''eco''),
                   (''hidden'', ''hidden'')]]"
  by code_simp

text \<open>The same list under \<open>or\<close> and the filter \<open>{country: "*", tag: "eco"}\<close>: both are shown.\<close>

lemma scenario_or:
  "updateListFromFilter
     [ElementNode [(''data-filter-country'', ''Norway''), (''data-filter-tag'', ''eco'')],
      ElementNode [(''data-filter-country'', ''Sweden''), (''data-filter-tag'', ''eco'')]]
     [(''country'', ''*''), (''tag'', ''eco'')] (joinTypeOf (Some ''or''))
   = [ElementNode [(''data-filter-country'', ''Norway''), (''data-filter-tag'', ''eco'')],
      ElementNode [(''data-filter-country'', ''Sweden''), (''data-filter-tag'', ''eco'')]]"
  by code_simp

text \<open>
  A check box with \<open>data-filter="true"\<close> and no \<open>data-filter-off\<close>, unchecked: the value
  of its key becomes the empty string, which in this version is no wildcard, so an item
  that declares \<open>true\<close> is hidden.
\<close>

lemma scenario_uncheck:
  "updateFilterPartFromControls [(''norway'', ''true'')] ''norway''
     [\<lparr>tagName = ''INPUT'', checked = False, selected = False, dataFilter = ''true'',
        dataFilterOff = None, ariaControls = None\<rparr>] = [(''norway'', [])] \<and>
   updateListFromFilter [ElementNode [(''data-filter-norway'', ''true'')]] [(''norway'', [])] JoinAnd
     = [ElementNode [(''data-filter-norway'', ''true''), (''hidden'', ''hidden'')]]"
  by code_simp

text \<open>
  Two changes and then a step back in the history: after the user has picked Sweden and
  then ticked \<open>eco\<close>, going back to the fragment of the first change gives the filter and
  the controls of that moment, \<open>tag\<close> being back at its default.
\<close>

lemma scenario_popstate:
  "(let st = foldl handleEvent (stateOf (setupFilter
        \<lparr>win = \<lparr>location_hash = [], hasPushState = True, pushed = []\<rparr>,
          rejectedPatterns = [],
          dataFilterTarget = Some ''list1'', dataFilterJoin = None, containerHidden = True,
          filterParts =
            [\<lparr>filterName = ''country'', filterDefault = None, filterControls =
                [\<lparr>tagName = ''INPUT'', checked = False, selected = False, dataFilter = ''Norway'',
                   dataFilterOff = None, ariaControls = None\<rparr>,
                 \<lparr>tagName = ''INPUT'', checked = False, selected = False, dataFilter = ''Sweden'',
                   dataFilterOff = None, ariaControls = None\<rparr>]\<rparr>,
             \<lparr>filterName = ''tag'', filterDefault = None, filterControls =
                [\<lparr>tagName = ''INPUT'', checked = False, selected = False, dataFilter = ''eco'',
                   dataFilterOff = Some ''*'', ariaControls = None\<rparr>]\<rparr>],
          targetList = Some [ElementNode [(''data-filter-country'', ''Norway''), (''data-filter-tag'', ''eco'')]],
          currentFilter = [], listeners = 0\<rparr>))
        [UserSets 0 1 True, Change 0, UserSets 1 0 True, Change 1, Popstate ''#!country=Sweden'']
    in (location_hash (win st), map snd (pushed (win st)), currentFilter st,
        map (\<lambda>p. map checked (filterControls p)) (filterParts st)))
   = (''#!country=Sweden'', [''#!country=Sweden'', ''#!country=Sweden;tag=eco''],
      [(''country'', ''Sweden''), (''tag'', ''*'')], [[False, True], [False]])"
  by code_simp

end
